theory Spec2Isabelle
  imports Complex_Main "HOL-Library.Word"
begin

section \<open>JavaScript strings\<close>

text \<open>
  A JavaScript string is a sequence of UTF-16 code units; \<open>s.length\<close> counts code units,
  and a regular expression without the \<open>u\<close> flag matches code unit by code unit.
\<close>

type_synonym code_unit = "16 word"
type_synonym jsstring = "code_unit list"

definition js :: "string \<Rightarrow> jsstring" where
  \<comment> \<open>an ASCII literal of the source as code units\<close>
  "js s = map (\<lambda>c. of_nat (of_char c)) s"

definition is_space :: "code_unit \<Rightarrow> bool" where
  \<comment> \<open>ECMAScript WhiteSpace and LineTerminator: what \<open>\\s\<close> matches and \<open>trim()\<close> strips\<close>
  "is_space c =
     (c = 0x0009 \<or> c = 0x000A \<or> c = 0x000B \<or> c = 0x000C \<or> c = 0x000D \<or> c = 0x0020 \<or>
      c = 0x00A0 \<or> c = 0x1680 \<or> (0x2000 \<le> c \<and> c \<le> 0x200A) \<or> c = 0x2028 \<or>
      c = 0x2029 \<or> c = 0x202F \<or> c = 0x205F \<or> c = 0x3000 \<or> c = 0xFEFF)"

definition trim :: "jsstring \<Rightarrow> jsstring" where
  \<comment> \<open>\<open>String.prototype.trim\<close>\<close>
  "trim s = rev (dropWhile is_space (rev (dropWhile is_space s)))"

section \<open>The e-mail pattern\<close>

text \<open>
  The regular expressions of the script are anchored sequences of single characters and
  character classes, each taken once or with a greedy \<open>+\<close>.
\<close>

datatype class_item = Space | Lit code_unit

datatype atom = Char code_unit | NotIn "class_item list"

datatype piece = One atom | Plus atom

fun item_matches :: "class_item \<Rightarrow> code_unit \<Rightarrow> bool" where
  "item_matches Space c = is_space c"
| "item_matches (Lit d) c = (c = d)"

fun atom_matches :: "atom \<Rightarrow> code_unit \<Rightarrow> bool" where
  "atom_matches (Char d) c = (c = d)"
| "atom_matches (NotIn items) c = (\<not> list_ex (\<lambda>i. item_matches i c) items)"

text \<open>
  The backtracking matcher for \<open>^p1 p2 ... pn$\<close>: a greedy \<open>+\<close> first tries to take
  one more character and falls back to the rest of the pattern.
\<close>

fun regex_test :: "piece list \<Rightarrow> jsstring \<Rightarrow> bool" where
  "regex_test [] s = (s = [])"
| "regex_test (One a # ps) [] = False"
| "regex_test (One a # ps) (c # s) = (atom_matches a c \<and> regex_test ps s)"
| "regex_test (Plus a # ps) [] = False"
| "regex_test (Plus a # ps) (c # s) =
     (atom_matches a c \<and> (regex_test (Plus a # ps) s \<or> regex_test ps s))"

definition emailRegex :: "piece list" where
  \<comment> \<open>\<open>/^[^\\s@]+@[^\\s@]+\\.[^\\s@]+$/\<close>\<close>
  "emailRegex =
     [Plus (NotIn [Space, Lit 0x40]), One (Char 0x40),
      Plus (NotIn [Space, Lit 0x40]), One (Char 0x2E),
      Plus (NotIn [Space, Lit 0x40])]"

definition validateEmail :: "jsstring \<Rightarrow> bool" where
  "validateEmail email = regex_test emailRegex email"

text \<open>The pattern in the words of the specification.\<close>

definition plain :: "code_unit \<Rightarrow> bool" where
  \<comment> \<open>a character that is neither white space nor \<open>@\<close>\<close>
  "plain c = (\<not> is_space c \<and> c \<noteq> 0x40)"

definition email_shape :: "jsstring \<Rightarrow> bool" where
  "email_shape x =
     (\<exists>a b c. x = a @ [0x40] @ b @ [0x2E] @ c \<and> a \<noteq> [] \<and> b \<noteq> [] \<and> c \<noteq> [] \<and>
        list_all plain a \<and> list_all plain b \<and> list_all plain c)"

section \<open>The contact form\<close>

text \<open>
  The page as the form code sees it. The markup is not part of the script, so the
  elements the script looks up are optional, as its guards (\<open>if (nameInput)\<close>,
  \<open>formGroup?.querySelector\<close>, \<open>if (formStatus)\<close>) make them. Each control is taken to
  sit in a \<open>.form-group\<close> of its own, so that its \<open>.error-message\<close> element is not shared,
  and to carry the \<open>name\<close> attribute equal to its id, so that \<open>FormData.get\<close> reads
  the control that \<open>querySelector\<close> finds.
\<close>

record error_el =
  err_textContent :: jsstring
  err_display :: jsstring

record input_el =
  el_value :: jsstring
  defaultValue :: jsstring
  aria_invalid :: "jsstring option"
  borderColor :: jsstring
  errorElement :: "error_el option"

record status_el =
  textContent :: jsstring
  className :: jsstring
  color :: jsstring

record button_el =
  disabled :: bool
  innerHTML :: jsstring

text \<open>
  A parsed JSON value. A number is the value it parses to (a magnitude too large for a
  double parses to an infinity, which behaves here as any number other than zero).
\<close>

datatype json =
  JNull | JBool bool | JNum rat | JStr jsstring | JArr "json list"
  | JObj "(jsstring \<times> json) list"

record http_request =
  req_url :: jsstring
  req_method :: jsstring
  req_headers :: "(jsstring \<times> jsstring) list"
  req_body :: json  \<comment> \<open>the value handed to \<open>JSON.stringify\<close>\<close>

text \<open>What the \<open>catch\<close> clause can receive.\<close>

datatype js_error =
  FetchRejection jsstring   \<comment> \<open>\<open>fetch\<close> rejected: a transport error\<close>
  | JsonRejection jsstring  \<comment> \<open>\<open>response.json()\<close> rejected: the body is not JSON\<close>
  | TypeError               \<comment> \<open>\<open>result.success\<close> read on \<open>null\<close>\<close>
  | Error json              \<comment> \<open>\<open>new Error(m)\<close>, holding the argument \<open>m\<close>\<close>

text \<open>How the awaited network call ends.\<close>

datatype fetch_outcome =
  FetchRejected jsstring | JsonRejected jsstring | JsonResolved json

datatype timer_cb = ClearStatus

record page =
  nameInput :: "input_el option"
  emailInput :: "input_el option"
  messageInput :: "input_el option"
  formStatus :: "status_el option"
  submitButton :: "button_el option"
  requests :: "http_request list"              \<comment> \<open>the calls of \<open>fetch\<close>, oldest first\<close>
  console :: "(jsstring \<times> js_error) list"       \<comment> \<open>the calls of \<open>console.error\<close>\<close>
  timers :: "(nat \<times> timer_cb) list"             \<comment> \<open>pending \<open>setTimeout\<close> callbacks with their due time\<close>
  now :: nat                                   \<comment> \<open>the clock, in milliseconds\<close>

definition showError :: "input_el \<Rightarrow> jsstring \<Rightarrow> input_el" where
  "showError input message =
     input\<lparr>errorElement :=
             map_option (\<lambda>e. e\<lparr>err_textContent := message, err_display := js ''block''\<rparr>)
               (errorElement input),
           aria_invalid := Some (js ''true''),
           borderColor := js ''#ff6b6b''\<rparr>"

definition clearError :: "input_el \<Rightarrow> input_el" where
  "clearError input =
     input\<lparr>errorElement :=
             map_option (\<lambda>e. e\<lparr>err_textContent := [], err_display := js ''none''\<rparr>)
               (errorElement input),
           aria_invalid := None,
           borderColor := []\<rparr>"

text \<open>
  The three blocks of \<open>validateForm\<close>. Each returns whether the field passed (\<open>False\<close>
  where the source assigns \<open>isValid = false\<close>) and the control as it leaves it.
\<close>

definition validate_name :: "input_el \<Rightarrow> bool \<times> input_el" where
  "validate_name input =
     (let name = trim (el_value input) in
      if name = [] then (False, showError input (js ''Please enter your name''))
      else if length name < 2 then
        (False, showError input (js ''Name must be at least 2 characters''))
      else (True, clearError input))"

definition validate_email :: "input_el \<Rightarrow> bool \<times> input_el" where
  "validate_email input =
     (let email = trim (el_value input) in
      if email = [] then (False, showError input (js ''Please enter your email''))
      else if \<not> validateEmail email then
        (False, showError input (js ''Please enter a valid email address''))
      else (True, clearError input))"

definition validate_message :: "input_el \<Rightarrow> bool \<times> input_el" where
  "validate_message input =
     (let message = trim (el_value input) in
      if message = [] then (False, showError input (js ''Please enter a message''))
      else if length message < 10 then
        (False, showError input (js ''Message must be at least 10 characters''))
      else (True, clearError input))"

definition guarded :: "('a \<Rightarrow> bool \<times> 'a) \<Rightarrow> 'a option \<Rightarrow> bool \<times> 'a option" where
  \<comment> \<open>\<open>if (input) { ... }\<close>: a control that is not there is skipped\<close>
  "guarded block input =
     (case input of None \<Rightarrow> (True, None)
      | Some i \<Rightarrow> (case block i of (ok, i') \<Rightarrow> (ok, Some i')))"

definition validateForm :: "page \<Rightarrow> bool \<times> page" where
  "validateForm s =
     (let (name_ok, n) = guarded validate_name (nameInput s);
          (email_ok, e) = guarded validate_email (emailInput s);
          (message_ok, m) = guarded validate_message (messageInput s);
          isValid = (name_ok \<and> email_ok \<and> message_ok)
      in (isValid, s\<lparr>nameInput := n, emailInput := e, messageInput := m\<rparr>))"

subsection \<open>The submit handler\<close>

definition access_key :: jsstring where
  "access_key = js ''f45e1224-9822-4d7b-9ce0-e88fb5594e30''"

definition formData_get :: "input_el option \<Rightarrow> jsstring option" where
  \<comment> \<open>\<open>formData.get(name)\<close>: the control's current value, \<open>null\<close> without the control\<close>
  "formData_get input = map_option el_value input"

definition to_json :: "jsstring option \<Rightarrow> json" where
  "to_json v = (case v of None \<Rightarrow> JNull | Some x \<Rightarrow> JStr x)"

definition template :: "jsstring option \<Rightarrow> jsstring" where
  \<comment> \<open>the text of a value inside a template literal\<close>
  "template v = (case v of None \<Rightarrow> js ''null'' | Some x \<Rightarrow> x)"

definition form_data :: "page \<Rightarrow> json" where
  "form_data s =
     JObj [(js ''access_key'', JStr access_key),
           (js ''name'', to_json (formData_get (nameInput s))),
           (js ''email'', to_json (formData_get (emailInput s))),
           (js ''message'', to_json (formData_get (messageInput s))),
           (js ''subject'',
            JStr (js ''New message from '' @ template (formData_get (nameInput s)) @
                  js '' - Portfolio Contact Form''))]"

definition post_request :: "json \<Rightarrow> http_request" where
  "post_request data =
     \<lparr>req_url = js ''https://api.web3forms.com/submit'',
      req_method = js ''POST'',
      req_headers = [(js ''Content-Type'', js ''application/json''),
                     (js ''Accept'', js ''application/json'')],
      req_body = data\<rparr>"

definition clear_status :: "page \<Rightarrow> page" where
  "clear_status s =
     s\<lparr>formStatus :=
         map_option (\<lambda>f. f\<lparr>textContent := [], className := js ''form-status''\<rparr>) (formStatus s)\<rparr>"

text \<open>
  The handler runs up to the first \<open>await\<close> and resumes when the network call has ended.
  What it keeps across the wait is \<open>originalButtonText\<close> (\<open>undefined\<close> without a button).
\<close>

datatype submit_phase = Aborted page | Awaiting page "jsstring option"

definition submit_begin :: "page \<Rightarrow> submit_phase" where
  "submit_begin s0 =
     (let s1 = clear_status s0;
          (isValid, s2) = validateForm s1
      in if \<not> isValid then Aborted s2
         else
           let data = form_data s2;
               originalButtonText = map_option innerHTML (submitButton s2);
               s3 = s2\<lparr>submitButton :=
                        map_option (\<lambda>b. b\<lparr>disabled := True,
                                            innerHTML := js ''<span>Sending...</span>''\<rparr>)
                          (submitButton s2)\<rparr>;
               s4 = s3\<lparr>requests := requests s3 @ [post_request data]\<rparr>
           in Awaiting s4 originalButtonText)"

fun get_prop :: "json \<Rightarrow> jsstring \<Rightarrow> json option" where
  \<comment> \<open>reading \<open>success\<close> or \<open>message\<close> from a value other than \<open>null\<close>; \<open>None\<close> is
      \<open>undefined\<close>, and of a repeated key the last one counts\<close>
  "get_prop (JObj kvs) k = map_of (rev kvs) k"
| "get_prop _ k = None"

fun truthy :: "json \<Rightarrow> bool" where
  "truthy JNull = False"
| "truthy (JBool b) = b"
| "truthy (JNum x) = (x \<noteq> 0)"
| "truthy (JStr t) = (t \<noteq> [])"
| "truthy (JArr _) = True"
| "truthy (JObj _) = True"

definition truthy_opt :: "json option \<Rightarrow> bool" where
  "truthy_opt v = (case v of None \<Rightarrow> False | Some x \<Rightarrow> truthy x)"

definition message_or :: "json option \<Rightarrow> json \<Rightarrow> json" where
  \<comment> \<open>\<open>a || b\<close>\<close>
  "message_or a b = (case a of None \<Rightarrow> b | Some x \<Rightarrow> if truthy x then x else b)"

definition success_message :: jsstring where
  \<comment> \<open>the text starts with U+2713\<close>
  "success_message = 0x2713 # js '' Message sent successfully! I'' @ [0x27] @ js ''ll get back to you soon.''"

definition failure_message :: jsstring where
  \<comment> \<open>the text starts with U+2717\<close>
  "failure_message = 0x2717 # js '' Something went wrong. Please try again.''"

definition form_reset :: "page \<Rightarrow> page" where
  \<comment> \<open>\<open>contactForm.reset()\<close> gives every control the value of its markup\<close>
  "form_reset s =
     (let r = map_option (\<lambda>i. i\<lparr>el_value := defaultValue i\<rparr>)
      in s\<lparr>nameInput := r (nameInput s), emailInput := r (emailInput s),
           messageInput := r (messageInput s)\<rparr>)"

definition setTimeout :: "timer_cb \<Rightarrow> nat \<Rightarrow> page \<Rightarrow> page" where
  "setTimeout cb delay s = s\<lparr>timers := timers s @ [(now s + delay, cb)]\<rparr>"

definition on_success :: "page \<Rightarrow> page" where
  "on_success s =
     (let s1 = s\<lparr>formStatus :=
                  map_option (\<lambda>f. f\<lparr>textContent := success_message,
                                      color := js ''var(--accent-cyan)''\<rparr>) (formStatus s)\<rparr>;
          s2 = form_reset s1
      in setTimeout ClearStatus 5000 s2)"

definition try_block :: "fetch_outcome \<Rightarrow> page \<Rightarrow> js_error + page" where
  "try_block outcome s =
     (case outcome of
        FetchRejected e \<Rightarrow> Inl (FetchRejection e)
      | JsonRejected e \<Rightarrow> Inl (JsonRejection e)
      | JsonResolved result \<Rightarrow>
          (case result of
             JNull \<Rightarrow> Inl TypeError
           | _ \<Rightarrow>
             if truthy_opt (get_prop result (js ''success'')) then Inr (on_success s)
             else Inl (Error (message_or (get_prop result (js ''message''))
                                (JStr (js ''Submission failed''))))))"

definition catch_block :: "js_error \<Rightarrow> page \<Rightarrow> page" where
  "catch_block error s =
     (let s1 = s\<lparr>formStatus :=
                  map_option (\<lambda>f. f\<lparr>textContent := failure_message,
                                      color := js ''#ff6b6b''\<rparr>) (formStatus s)\<rparr>
      in s1\<lparr>console := console s1 @ [(js ''Form submission error:'', error)]\<rparr>)"

definition finally_block :: "jsstring option \<Rightarrow> page \<Rightarrow> page" where
  \<comment> \<open>\<open>if (submitButton && originalButtonText)\<close>: an empty string is falsy\<close>
  "finally_block originalButtonText s =
     (case (submitButton s, originalButtonText) of
        (Some b, Some t) \<Rightarrow>
          if t \<noteq> [] then s\<lparr>submitButton := Some (b\<lparr>disabled := False, innerHTML := t\<rparr>)\<rparr>
          else s
      | _ \<Rightarrow> s)"

definition submit_resume :: "jsstring option \<Rightarrow> fetch_outcome \<Rightarrow> page \<Rightarrow> page" where
  "submit_resume originalButtonText outcome s =
     finally_block originalButtonText
       (case try_block outcome s of Inr s' \<Rightarrow> s' | Inl error \<Rightarrow> catch_block error s)"

definition submit :: "page \<Rightarrow> fetch_outcome \<Rightarrow> page" where
  \<comment> \<open>one run of the handler, with the end of its network call\<close>
  "submit s outcome =
     (case submit_begin s of
        Aborted s' \<Rightarrow> s'
      | Awaiting s' originalButtonText \<Rightarrow> submit_resume originalButtonText outcome s')"

text \<open>The page as the handler leaves it at the \<open>await\<close>.\<close>

definition sending :: "page \<Rightarrow> page" where
  "sending s =
     s\<lparr>submitButton :=
         map_option (\<lambda>b. b\<lparr>disabled := True, innerHTML := js ''<span>Sending...</span>''\<rparr>)
           (submitButton s),
       requests := requests s @ [post_request (form_data s)]\<rparr>"

subsection \<open>Timers\<close>

fun run_cb :: "timer_cb \<Rightarrow> page \<Rightarrow> page" where
  "run_cb ClearStatus s =
     s\<lparr>formStatus := map_option (\<lambda>f. f\<lparr>textContent := []\<rparr>) (formStatus s)\<rparr>"

definition advance :: "nat \<Rightarrow> page \<Rightarrow> page" where
  \<comment> \<open>\<open>d\<close> milliseconds pass: the callbacks due by then run, earliest first\<close>
  "advance d s =
     (let t = now s + d;
          due = sort_key fst (filter (\<lambda>(time, cb). time \<le> t) (timers s));
          rest = filter (\<lambda>(time, cb). \<not> time \<le> t) (timers s)
      in fold run_cb (map snd due) (s\<lparr>now := t, timers := rest\<rparr>))"

section \<open>Active section highlighting\<close>

text \<open>
  Offsets are whole pixels. The links are the elements of class \<open>nav-link\<close> in document
  order; section ids are taken to be plain identifiers, so that the selector
  \<open>.nav-link[href="#id"]\<close> finds the first link whose \<open>href\<close> attribute is \<open>#id\<close>.
\<close>

record section_el =
  offsetTop :: int
  offsetHeight :: int
  sec_id :: jsstring




definition in_section :: "int \<Rightarrow> section_el \<Rightarrow> bool" where
  "in_section scrollPosition sec =
     (scrollPosition \<ge> offsetTop sec \<and> scrollPosition < offsetTop sec + offsetHeight sec)"



text \<open>Sections whose offset ranges \<open>[top, top + height)\<close> share no position.\<close>

definition apart :: "section_el \<Rightarrow> section_el \<Rightarrow> bool" where
  "apart a b =
     (offsetHeight a \<le> 0 \<or> offsetHeight b \<le> 0 \<or>
      offsetTop a + offsetHeight a \<le> offsetTop b \<or> offsetTop b + offsetHeight b \<le> offsetTop a)"



section \<open>The mobile menu and the keyboard\<close>

text \<open>
  Elements are named by numbers. \<open>focusable\<close> lists what \<open>querySelectorAll\<close> finds in the
  menu, in document order; \<open>menu_keydown\<close> lists the \<open>keydown\<close> listeners registered on
  the menu element.
\<close>

record key_event =
  key :: jsstring
  shiftKey :: bool
  defaultPrevented :: bool

datatype listener = HandleTab "nat option" "nat option"
  \<comment> \<open>the closure \<open>handleTab\<close> with its \<open>firstFocusable\<close> and \<open>lastFocusable\<close>\<close>

record nav =
  navToggle :: nat
  aria_expanded :: "jsstring option"
  menu_open :: bool              \<comment> \<open>the class list of the menu holds \<open>open\<close>\<close>
  body_overflow :: jsstring
  focusable :: "nat list"
  activeElement :: "nat option"
  menu_keydown :: "listener list"

definition toggle_click :: "nav \<Rightarrow> nav" where
  "toggle_click s =
     (let isExpanded = (aria_expanded s = Some (js ''true''))
      in s\<lparr>aria_expanded := Some (if \<not> isExpanded then js ''true'' else js ''false''),
           menu_open := \<not> menu_open s,
           body_overflow := (if \<not> isExpanded then js ''hidden'' else [])\<rparr>)"

definition close_menu :: "nav \<Rightarrow> nav" where
  "close_menu s = s\<lparr>menu_open := False, aria_expanded := Some (js ''false''), body_overflow := []\<rparr>"

definition link_click :: "nav \<Rightarrow> nav" where
  "link_click s = (if menu_open s then close_menu s else s)"

definition outside_click :: "nav \<Rightarrow> nav" where
  \<comment> \<open>a click whose target is neither in the menu nor in the toggle\<close>
  "outside_click s = (if menu_open s then close_menu s else s)"

definition escape_keydown :: "key_event \<Rightarrow> nav \<Rightarrow> nav" where
  \<comment> \<open>the \<open>keydown\<close> listener of the document\<close>
  "escape_keydown e s =
     (if key e = js ''Escape'' \<and> menu_open s
      then s\<lparr>menu_open := False, aria_expanded := Some (js ''false''),
             activeElement := Some (navToggle s), body_overflow := []\<rparr>
      else s)"

definition trapFocus :: "nav \<Rightarrow> nav" where
  \<comment> \<open>\<open>trapFocus(element)\<close> on the menu: registers \<open>handleTab\<close>\<close>
  "trapFocus s =
     (let focusableElements = focusable s;
          firstFocusable = (case focusableElements of [] \<Rightarrow> None | x # _ \<Rightarrow> Some x);
          lastFocusable = (if focusableElements = [] then None else Some (last focusableElements))
      in s\<lparr>menu_keydown := menu_keydown s @ [HandleTab firstFocusable lastFocusable]\<rparr>)"

fun handle :: "listener \<Rightarrow> key_event \<times> nav \<Rightarrow> key_event \<times> nav" where
  "handle (HandleTab firstFocusable lastFocusable) (e, s) =
     (if key e \<noteq> js ''Tab'' then (e, s)
      else if shiftKey e then
        (if firstFocusable \<noteq> None \<and> activeElement s = firstFocusable
         then (e\<lparr>defaultPrevented := True\<rparr>, s\<lparr>activeElement := lastFocusable\<rparr>)
         else (e, s))
      else
        (if lastFocusable \<noteq> None \<and> activeElement s = lastFocusable
         then (e\<lparr>defaultPrevented := True\<rparr>, s\<lparr>activeElement := firstFocusable\<rparr>)
         else (e, s)))"

definition keydown :: "key_event \<Rightarrow> nav \<Rightarrow> key_event \<times> nav" where
  \<comment> \<open>a key pressed on the focused element: the listeners of the menu run when the
      element is in the menu, then the listener of the document\<close>
  "keydown e s =
     (let in_menu = (case activeElement s of None \<Rightarrow> False | Some x \<Rightarrow> x \<in> set (focusable s));
          (e1, s1) = (if in_menu then fold handle (menu_keydown s) (e, s) else (e, s))
      in (e1, escape_keydown e1 s1))"

text \<open>
  The events of the navigation that the script listens to. The script registers no
  \<open>keydown\<close> listener on the menu: \<open>trapFocus\<close> has no caller.
\<close>

datatype nav_event = ToggleClick | LinkClick | OutsideClick | KeyDown jsstring bool | Focus nat

fun nav_step :: "nav_event \<Rightarrow> nav \<Rightarrow> nav" where
  "nav_step ToggleClick s = toggle_click s"
| "nav_step LinkClick s = link_click s"
| "nav_step OutsideClick s = outside_click s"
| "nav_step (KeyDown k shift) s =
     snd (keydown \<lparr>key = k, shiftKey = shift, defaultPrevented = False\<rparr> s)"
| "nav_step (Focus x) s = s\<lparr>activeElement := Some x\<rparr>"

definition page_load :: "nat \<Rightarrow> nat list \<Rightarrow> nav" where
  \<comment> \<open>the navigation once the script has run: a closed menu, no listener on the menu\<close>
  "page_load toggle menu_items =
     \<lparr>navToggle = toggle, aria_expanded = Some (js ''false''), menu_open = False,
      body_overflow = [], focusable = menu_items, activeElement = None, menu_keydown = []\<rparr>"

section \<open>The rules of the specification and sample pages\<close>

text \<open>
  A field is valid when it is not empty after trimming and passes its own rule: a name of
  at least 2 characters, an e-mail address of the shape above, a message of at least 10
  characters.
\<close>

definition name_rule :: "jsstring \<Rightarrow> bool" where
  "name_rule v = (trim v \<noteq> [] \<and> 2 \<le> length (trim v))"

definition email_rule :: "jsstring \<Rightarrow> bool" where
  "email_rule v = (trim v \<noteq> [] \<and> email_shape (trim v))"

definition message_rule :: "jsstring \<Rightarrow> bool" where
  "message_rule v = (trim v \<noteq> [] \<and> 10 \<le> length (trim v))"

text \<open>The text of the status line, if the page has one.\<close>

definition status_text :: "page \<Rightarrow> jsstring option" where
  "status_text s = map_option textContent (formStatus s)"

text \<open>
  The ways a submission fails: the transport fails, the body is not JSON, or the answer
  does not report success; and the error that the handler then catches.
\<close>

definition is_failure :: "fetch_outcome \<Rightarrow> bool" where
  "is_failure outcome =
     (case outcome of
        FetchRejected _ \<Rightarrow> True
      | JsonRejected _ \<Rightarrow> True
      | JsonResolved result \<Rightarrow> \<not> truthy_opt (get_prop result (js ''success'')))"

definition underlying_error :: "fetch_outcome \<Rightarrow> js_error" where
  "underlying_error outcome =
     (case outcome of
        FetchRejected x \<Rightarrow> FetchRejection x
      | JsonRejected x \<Rightarrow> JsonRejection x
      | JsonResolved result \<Rightarrow>
          if result = JNull then TypeError
          else Error (message_or (get_prop result (js ''message''))
                        (JStr (js ''Submission failed''))))"

text \<open>What a control shows: an error with a given text, or no error.\<close>

definition shows_error :: "input_el \<Rightarrow> jsstring \<Rightarrow> bool" where
  "shows_error i msg =
     (aria_invalid i = Some (js ''true'') \<and>
      (case errorElement i of None \<Rightarrow> True
       | Some e \<Rightarrow> err_textContent e = msg \<and> err_display e = js ''block''))"

definition shows_no_error :: "input_el \<Rightarrow> bool" where
  "shows_no_error i =
     (aria_invalid i = None \<and>
      (case errorElement i of None \<Rightarrow> True
       | Some e \<Rightarrow> err_textContent e = [] \<and> err_display e = js ''none''))"

definition marked_invalid :: "input_el option \<Rightarrow> bool" where
  "marked_invalid input =
     (case input of None \<Rightarrow> False
      | Some i \<Rightarrow> aria_invalid i = Some (js ''true'') \<and>
          (case errorElement i of None \<Rightarrow> True
           | Some e \<Rightarrow> err_textContent e \<noteq> [] \<and> err_display e = js ''block''))"

text \<open>A page with every element, for concrete runs.\<close>

definition text_input :: "jsstring \<Rightarrow> input_el" where
  "text_input v =
     \<lparr>el_value = v, defaultValue = [], aria_invalid = None, borderColor = [],
      errorElement = Some \<lparr>err_textContent = [], err_display = js ''none''\<rparr>\<rparr>"

definition sample_page :: "jsstring \<Rightarrow> jsstring \<Rightarrow> jsstring \<Rightarrow> jsstring \<Rightarrow> page" where
  "sample_page name email message label =
     \<lparr>nameInput = Some (text_input name), emailInput = Some (text_input email),
      messageInput = Some (text_input message),
      formStatus = Some \<lparr>textContent = [], className = js ''form-status'', color = []\<rparr>,
      submitButton = Some \<lparr>disabled = False, innerHTML = label\<rparr>,
      requests = [], console = [], timers = [], now = 0\<rparr>"



section \<open>Properties of the matcher\<close>

lemma regex_test_Plus:
  "regex_test (Plus a # ps) s =
     (\<exists>u v. s = u @ v \<and> u \<noteq> [] \<and> list_all (atom_matches a) u \<and> regex_test ps v)"
proof (induction s)
  case Nil
  then show ?case by simp
next
  case (Cons c s)
  show ?case
  proof
    assume "regex_test (Plus a # ps) (c # s)"
    then have c: "atom_matches a c"
      and alt: "regex_test (Plus a # ps) s \<or> regex_test ps s"
      by simp_all
    from alt show "\<exists>u v. c # s = u @ v \<and> u \<noteq> [] \<and> list_all (atom_matches a) u \<and> regex_test ps v"
    proof
      assume "regex_test (Plus a # ps) s"
      with Cons.IH obtain u v where "s = u @ v" "list_all (atom_matches a) u" "regex_test ps v"
        by blast
      with c have "c # s = (c # u) @ v \<and> c # u \<noteq> [] \<and> list_all (atom_matches a) (c # u) \<and> regex_test ps v"
        by simp
      then show ?thesis by blast
    next
      assume "regex_test ps s"
      with c have "c # s = [c] @ s \<and> [c] \<noteq> [] \<and> list_all (atom_matches a) [c] \<and> regex_test ps s"
        by simp
      then show ?thesis by blast
    qed
  next
    assume "\<exists>u v. c # s = u @ v \<and> u \<noteq> [] \<and> list_all (atom_matches a) u \<and> regex_test ps v"
    then obtain u v where uv: "c # s = u @ v" "u \<noteq> []" "list_all (atom_matches a) u" "regex_test ps v"
      by blast
    then obtain u' where u: "u = c # u'" and s: "s = u' @ v"
      by (cases u) auto
    from u uv have c: "atom_matches a c" and u': "list_all (atom_matches a) u'"
      by simp_all
    show "regex_test (Plus a # ps) (c # s)"
    proof (cases "u' = []")
      case True
      with s uv c show ?thesis by simp
    next
      case False
      with s u' uv have "regex_test (Plus a # ps) s"
        using Cons.IH by blast
      with c show ?thesis by simp
    qed
  qed
qed

lemma regex_test_One:
  "regex_test (One a # ps) s = (\<exists>c v. s = c # v \<and> atom_matches a c \<and> regex_test ps v)"
  by (cases s) auto

lemma atom_matches_class: "atom_matches (NotIn [Space, Lit 0x40]) = plain"
  by (rule ext) (simp add: plain_def)

lemma regex_test_last_Plus:
  "regex_test [Plus a] s = (s \<noteq> [] \<and> list_all (atom_matches a) s)"
  by (auto simp: regex_test_Plus)

lemma validateEmail_shape: "validateEmail x = email_shape x"
  unfolding validateEmail_def emailRegex_def email_shape_def
  by (simp only: regex_test_Plus regex_test_One regex_test_last_Plus atom_matches_class
        atom_matches.simps) (auto; blast)

section \<open>Properties of the validator\<close>

lemma shows_error_showError: "shows_error (showError i msg) msg"
  by (simp add: shows_error_def showError_def split: option.splits)

lemma shows_no_error_clearError: "shows_no_error (clearError i)"
  by (simp add: shows_no_error_def clearError_def split: option.splits)

lemma aria_showError: "aria_invalid (showError i msg) = Some (js ''true'')"
  by (simp add: showError_def)

lemma aria_clearError: "aria_invalid (clearError i) = None"
  by (simp add: clearError_def)

lemma value_showError:
  "el_value (showError i msg) = el_value i" "defaultValue (showError i msg) = defaultValue i"
  by (simp_all add: showError_def)

lemma value_clearError:
  "el_value (clearError i) = el_value i" "defaultValue (clearError i) = defaultValue i"
  by (simp_all add: clearError_def)

lemma marked_showError: "msg \<noteq> [] \<Longrightarrow> marked_invalid (Some (showError i msg))"
  by (simp add: marked_invalid_def showError_def split: option.splits)

lemma validate_name_cases:
  "validate_name i =
     (if trim (el_value i) = [] then (False, showError i (js ''Please enter your name''))
      else if length (trim (el_value i)) < 2
        then (False, showError i (js ''Name must be at least 2 characters''))
      else (True, clearError i))"
  by (simp add: validate_name_def Let_def)

lemma validate_email_cases:
  "validate_email i =
     (if trim (el_value i) = [] then (False, showError i (js ''Please enter your email''))
      else if \<not> validateEmail (trim (el_value i))
        then (False, showError i (js ''Please enter a valid email address''))
      else (True, clearError i))"
  by (simp add: validate_email_def Let_def)

lemma validate_message_cases:
  "validate_message i =
     (if trim (el_value i) = [] then (False, showError i (js ''Please enter a message''))
      else if length (trim (el_value i)) < 10
        then (False, showError i (js ''Message must be at least 10 characters''))
      else (True, clearError i))"
  by (simp add: validate_message_def Let_def)

lemma fst_validate_name: "fst (validate_name i) = name_rule (el_value i)"
  by (auto simp: validate_name_cases name_rule_def)

lemma fst_validate_email: "fst (validate_email i) = email_rule (el_value i)"
  by (auto simp: validate_email_cases email_rule_def validateEmail_shape)

lemma fst_validate_message: "fst (validate_message i) = message_rule (el_value i)"
  by (auto simp: validate_message_cases message_rule_def)

lemma aria_validate_name:
  "(aria_invalid (snd (validate_name i)) = None) = name_rule (el_value i)"
  by (auto simp: validate_name_cases name_rule_def aria_showError aria_clearError)

lemma aria_validate_email:
  "(aria_invalid (snd (validate_email i)) = None) = email_rule (el_value i)"
  by (auto simp: validate_email_cases email_rule_def validateEmail_shape aria_showError aria_clearError)

lemma aria_validate_message:
  "(aria_invalid (snd (validate_message i)) = None) = message_rule (el_value i)"
  by (auto simp: validate_message_cases message_rule_def aria_showError aria_clearError)

lemma js_nonempty: "js (c # cs) \<noteq> []"
  by (simp add: js_def)

lemma marked_validate_name:
  "\<not> name_rule (el_value i) \<Longrightarrow> marked_invalid (Some (snd (validate_name i)))"
  by (auto simp: validate_name_cases name_rule_def marked_showError js_nonempty)

lemma marked_validate_email:
  "\<not> email_rule (el_value i) \<Longrightarrow> marked_invalid (Some (snd (validate_email i)))"
  by (auto simp: validate_email_cases email_rule_def validateEmail_shape marked_showError js_nonempty)

lemma marked_validate_message:
  "\<not> message_rule (el_value i) \<Longrightarrow> marked_invalid (Some (snd (validate_message i)))"
  by (auto simp: validate_message_cases message_rule_def marked_showError js_nonempty)

lemma value_validate:
  "el_value (snd (validate_name i)) = el_value i"
  "el_value (snd (validate_email i)) = el_value i"
  "el_value (snd (validate_message i)) = el_value i"
  by (simp_all add: validate_name_cases validate_email_cases validate_message_cases
        value_showError value_clearError)

lemma guarded_Some: "guarded f (Some i) = (fst (f i), Some (snd (f i)))"
  by (simp add: guarded_def split: prod.splits)

lemma guarded_None: "guarded f None = (True, None)"
  by (simp add: guarded_def)

lemma validateForm_frame:
  "formStatus (snd (validateForm s)) = formStatus s"
  "submitButton (snd (validateForm s)) = submitButton s"
  "requests (snd (validateForm s)) = requests s"
  "console (snd (validateForm s)) = console s"
  "timers (snd (validateForm s)) = timers s"
  "now (snd (validateForm s)) = now s"
  by (simp_all add: validateForm_def Let_def split: prod.splits)

lemma validateForm_fields:
  "nameInput (snd (validateForm s)) = snd (guarded validate_name (nameInput s))"
  "emailInput (snd (validateForm s)) = snd (guarded validate_email (emailInput s))"
  "messageInput (snd (validateForm s)) = snd (guarded validate_message (messageInput s))"
  by (simp_all add: validateForm_def Let_def split: prod.splits)

lemma fst_validateForm:
  "fst (validateForm s) =
     (fst (guarded validate_name (nameInput s)) \<and> fst (guarded validate_email (emailInput s)) \<and>
      fst (guarded validate_message (messageInput s)))"
  by (simp add: validateForm_def Let_def split: prod.splits)

lemma clear_status_fields:
  "nameInput (clear_status s) = nameInput s"
  "emailInput (clear_status s) = emailInput s"
  "messageInput (clear_status s) = messageInput s"
  "submitButton (clear_status s) = submitButton s"
  "requests (clear_status s) = requests s"
  "console (clear_status s) = console s"
  "timers (clear_status s) = timers s"
  "now (clear_status s) = now s"
  by (simp_all add: clear_status_def)

lemma submit_begin_invalid:
  "\<not> fst (validateForm (clear_status s)) \<Longrightarrow>
     submit_begin s = Aborted (snd (validateForm (clear_status s)))"
  by (cases "validateForm (clear_status s)") (simp add: submit_begin_def Let_def)




lemma submit_begin_valid:
  assumes "fst (validateForm (clear_status s))"
  shows "submit_begin s =
     Awaiting (sending (snd (validateForm (clear_status s)))) (map_option innerHTML (submitButton s))"
proof (cases "validateForm (clear_status s)")
  case (Pair ok s2)
  with assms have ok by simp
  have b: "submitButton s2 = submitButton s"
    using Pair validateForm_frame(2) [of "clear_status s"] by (simp add: clear_status_fields)
  show ?thesis
    using Pair \<open>ok\<close> b by (simp add: submit_begin_def Let_def sending_def)
qed


lemma submit_invalid:
  "\<not> fst (validateForm (clear_status s)) \<Longrightarrow>
     submit s outcome = snd (validateForm (clear_status s))"
  by (simp add: submit_def submit_begin_invalid)

lemma guarded_marked:
  assumes "input = Some i" and "marked_invalid (Some (snd (block i)))"
  shows "marked_invalid (snd (guarded block input))"
  using assms by (simp add: guarded_Some)

lemma sample_page_fields:
  "nameInput (sample_page a b c l) = Some (text_input a)"
  "emailInput (sample_page a b c l) = Some (text_input b)"
  "messageInput (sample_page a b c l) = Some (text_input c)"
  "formStatus (sample_page a b c l) =
     Some \<lparr>textContent = [], className = js ''form-status'', color = []\<rparr>"
  "submitButton (sample_page a b c l) = Some \<lparr>disabled = False, innerHTML = l\<rparr>"
  "requests (sample_page a b c l) = []"
  "console (sample_page a b c l) = []"
  "timers (sample_page a b c l) = []"
  "now (sample_page a b c l) = 0"
  by (simp_all add: sample_page_def)

lemma text_input_fields:
  "el_value (text_input v) = v" "defaultValue (text_input v) = []"
  by (simp_all add: text_input_def)

lemma trim_samples:
  "trim (js ''a'') = js ''a''"
  "trim (js '' Al '') = js ''Al''"
  "trim (js ''al@example.com '') = js ''al@example.com''"
  "trim (js ''a@b.co'') = js ''a@b.co''"
  "trim (js ''123456789'') = js ''123456789''"
  "trim (js ''1234567890'') = js ''1234567890''"
  "trim (js ''  hello there'') = js ''hello there''"
  by (simp_all add: trim_def js_def is_space_def)

lemma length_js: "length (js t) = length t"
  by (simp add: js_def)

lemma js_Nil: "(js t = []) = (t = [])"
  by (simp add: js_def)

lemma email_samples:
  "validateEmail (js ''a@b.co'')" "validateEmail (js ''al@example.com'')"
  by (simp_all add: validateEmail_def emailRegex_def js_def is_space_def)

section \<open>Properties of the submit handler\<close>

lemma valid_form:
  assumes "nameInput s = Some n" and "emailInput s = Some e" and "messageInput s = Some m"
    and "name_rule (el_value n)" and "email_rule (el_value e)" and "message_rule (el_value m)"
  shows "fst (validateForm (clear_status s))"
  using assms
  by (simp add: fst_validateForm clear_status_fields guarded_Some fst_validate_name
      fst_validate_email fst_validate_message)

lemma submit_valid:
  "fst (validateForm (clear_status s)) \<Longrightarrow>
     submit s outcome =
       submit_resume (map_option innerHTML (submitButton s)) outcome
         (sending (snd (validateForm (clear_status s))))"
  by (simp add: submit_def submit_begin_valid)

lemma finally_block_frame:
  "nameInput (finally_block t s) = nameInput s"
  "emailInput (finally_block t s) = emailInput s"
  "messageInput (finally_block t s) = messageInput s"
  "formStatus (finally_block t s) = formStatus s"
  "requests (finally_block t s) = requests s"
  "console (finally_block t s) = console s"
  "timers (finally_block t s) = timers s"
  "now (finally_block t s) = now s"
  by (simp_all add: finally_block_def split: option.splits)

lemma catch_block_frame:
  "nameInput (catch_block err s) = nameInput s"
  "emailInput (catch_block err s) = emailInput s"
  "messageInput (catch_block err s) = messageInput s"
  "submitButton (catch_block err s) = submitButton s"
  "requests (catch_block err s) = requests s"
  "timers (catch_block err s) = timers s"
  "now (catch_block err s) = now s"
  "console (catch_block err s) = console s @ [(js ''Form submission error:'', err)]"
  "formStatus (catch_block err s) =
     map_option (\<lambda>f. f\<lparr>textContent := failure_message, color := js ''#ff6b6b''\<rparr>) (formStatus s)"
  by (simp_all add: catch_block_def Let_def)

lemma on_success_frame:
  "submitButton (on_success s) = submitButton s"
  "requests (on_success s) = requests s"
  "console (on_success s) = console s"
  "now (on_success s) = now s"
  "timers (on_success s) = timers s @ [(now s + 5000, ClearStatus)]"
  "formStatus (on_success s) =
     map_option (\<lambda>f. f\<lparr>textContent := success_message, color := js ''var(--accent-cyan)''\<rparr>)
       (formStatus s)"
  "nameInput (on_success s) = map_option (\<lambda>i. i\<lparr>el_value := defaultValue i\<rparr>) (nameInput s)"
  "emailInput (on_success s) = map_option (\<lambda>i. i\<lparr>el_value := defaultValue i\<rparr>) (emailInput s)"
  "messageInput (on_success s) = map_option (\<lambda>i. i\<lparr>el_value := defaultValue i\<rparr>) (messageInput s)"
  by (simp_all add: on_success_def setTimeout_def form_reset_def Let_def)

lemma sending_frame:
  "nameInput (sending s) = nameInput s"
  "emailInput (sending s) = emailInput s"
  "messageInput (sending s) = messageInput s"
  "formStatus (sending s) = formStatus s"
  "console (sending s) = console s"
  "timers (sending s) = timers s"
  "now (sending s) = now s"
  "requests (sending s) = requests s @ [post_request (form_data s)]"
  "submitButton (sending s) =
     map_option (\<lambda>b. b\<lparr>disabled := True, innerHTML := js ''<span>Sending...</span>''\<rparr>)
       (submitButton s)"
  by (simp_all add: sending_def)

lemma try_block_cases:
  "(\<exists>err. try_block outcome s = Inl err) \<or> try_block outcome s = Inr (on_success s)"
  by (simp add: try_block_def split: fetch_outcome.splits json.splits)




lemma trim_Al: "trim (js ''Al'') = js ''Al''"
  by (simp add: trim_def js_def is_space_def)

lemma rules_samples:
  "name_rule (js '' Al '')" "email_rule (js ''al@example.com '')"
  "message_rule (js ''  hello there'')"
  "name_rule (js ''Al'')" "email_rule (js ''a@b.co'')" "message_rule (js ''1234567890'')"
  using email_samples
  by (simp_all add: name_rule_def email_rule_def message_rule_def trim_samples trim_Al length_js js_Nil
      validateEmail_shape [symmetric])



lemma try_block_success:
  "truthy_opt (get_prop result (js ''success'')) \<Longrightarrow>
     try_block (JsonResolved result) s = Inr (on_success s)"
  by (cases result) (simp_all add: try_block_def truthy_opt_def)

lemma try_block_failure:
  assumes "is_failure outcome"
  shows "try_block outcome s = Inl (underlying_error outcome)"
proof (cases outcome)
  case (JsonResolved result)
  with assms show ?thesis
    by (cases result) (simp_all add: is_failure_def underlying_error_def try_block_def)
qed (simp_all add: underlying_error_def try_block_def)

lemma default_validate:
  "defaultValue (snd (validate_name i)) = defaultValue i"
  "defaultValue (snd (validate_email i)) = defaultValue i"
  "defaultValue (snd (validate_message i)) = defaultValue i"
  by (simp_all add: validate_name_cases validate_email_cases validate_message_cases
        value_showError value_clearError)

lemma run_cb_idem: "run_cb cb (run_cb cb t) = run_cb cb t"
  by (cases cb) (simp add: option.map_comp comp_def)

lemma formStatus_fold_run_cb:
  "formStatus (fold run_cb cbs s) =
     (if cbs = [] then formStatus s
      else map_option (\<lambda>f. f\<lparr>textContent := []\<rparr>) (formStatus s))"
proof (induction cbs arbitrary: s)
  case Nil
  show ?case by simp
next
  case (Cons cb cbs)
  show ?case
    by (cases cb) (simp add: Cons.IH option.map_comp comp_def)
qed

lemma sort_key_Nil: "(sort_key k xs = []) = (xs = [])"
  using length_sort [of k xs] by (cases xs) auto

lemma due_Nil:
  "(filter (\<lambda>(time, cb). time \<le> t) ts = []) = (\<not> (\<exists>(time, cb) \<in> set ts. time \<le> (t::nat)))"
  by (auto simp: filter_empty_conv)

lemma formStatus_advance:
  "formStatus (advance d s) =
     (if \<exists>(time, cb) \<in> set (timers s). time \<le> now s + d
      then map_option (\<lambda>f. f\<lparr>textContent := []\<rparr>) (formStatus s) else formStatus s)"
  unfolding advance_def Let_def formStatus_fold_run_cb map_is_Nil_conv sort_key_Nil due_Nil
  by simp

lemma status_text_advance:
  "status_text (advance d s) =
     (if \<exists>(time, cb) \<in> set (timers s). time \<le> now s + d
      then map_option (\<lambda>_. []) (formStatus s) else status_text s)"
  by (simp add: status_text_def formStatus_advance option.map_comp comp_def)

lemma submit_success:
  assumes "fst (validateForm (clear_status s))"
    and "truthy_opt (get_prop result (js ''success''))"
  shows "submit s (JsonResolved result) =
     finally_block (map_option innerHTML (submitButton s))
       (on_success (sending (snd (validateForm (clear_status s)))))"
  using assms by (simp add: submit_valid submit_resume_def try_block_success)

lemma submit_failure:
  assumes "fst (validateForm (clear_status s))" and "is_failure outcome"
  shows "submit s outcome =
     finally_block (map_option innerHTML (submitButton s))
       (catch_block (underlying_error outcome) (sending (snd (validateForm (clear_status s)))))"
  using assms by (simp add: submit_valid submit_resume_def try_block_failure)

lemma success_message_nonempty: "success_message \<noteq> []"
  by (simp add: success_message_def)

lemma success_true: "truthy_opt (get_prop (JObj [(js ''success'', JBool True)]) (js ''success''))"
  by (simp add: truthy_opt_def js_def)

lemma failure_false:
  "is_failure (JsonResolved (JObj [(js ''success'', JBool False), (js ''message'', JStr (js ''quota''))]))"
  by (simp add: is_failure_def truthy_opt_def js_def)

lemma underlying_false:
  "underlying_error (JsonResolved (JObj [(js ''success'', JBool False), (js ''message'', JStr (js ''quota''))]))
     = Error (JStr (js ''quota''))"
  by (simp add: underlying_error_def message_or_def js_def)

lemma failure_message_nonempty: "failure_message \<noteq> []"
  by (simp add: failure_message_def)

lemma submitButton_finally_block:
  "submitButton s = Some b \<Longrightarrow>
     submitButton (finally_block (Some t) s) =
       (if t \<noteq> [] then Some (b\<lparr>disabled := False, innerHTML := t\<rparr>) else Some b)"
  by (simp add: finally_block_def)

lemma submitButton_resumed:
  "submitButton (case try_block outcome s of Inr s' \<Rightarrow> s' | Inl err \<Rightarrow> catch_block err s) =
     submitButton s"
  using try_block_cases [of outcome s]
  by (auto simp: catch_block_frame on_success_frame)

lemma submit_button:
  assumes "fst (validateForm (clear_status s))" and "submitButton s = Some b"
  shows "submitButton (submit s outcome) =
     (if innerHTML b \<noteq> [] then Some (b\<lparr>disabled := False\<rparr>)
      else Some (b\<lparr>disabled := True, innerHTML := js ''<span>Sending...</span>''\<rparr>))"
proof -
  let ?v = "sending (snd (validateForm (clear_status s)))"
  let ?x = "case try_block outcome ?v of Inr s' \<Rightarrow> s' | Inl err \<Rightarrow> catch_block err ?v"
  have "submitButton ?x =
      Some (b\<lparr>disabled := True, innerHTML := js ''<span>Sending...</span>''\<rparr>)"
    using assms(2)
    by (simp add: submitButton_resumed sending_frame validateForm_frame clear_status_fields)
  from submitButton_finally_block [OF this, of "innerHTML b"] show ?thesis
    using assms by (simp add: submit_valid submit_resume_def)
qed

section \<open>Properties of the navigation\<close>














lemma apart_sym: "apart a b = apart b a"
  by (auto simp: apart_def)

lemma apart_iff: "apart a b = (\<forall>p. \<not> (in_section p a \<and> in_section p b))"
proof
  assume "apart a b"
  then show "\<forall>p. \<not> (in_section p a \<and> in_section p b)"
    by (auto simp: apart_def in_section_def)
next
  assume r: "\<forall>p. \<not> (in_section p a \<and> in_section p b)"
  show "apart a b"
  proof (rule ccontr)
    assume "\<not> apart a b"
    then have "in_section (max (offsetTop a) (offsetTop b)) a \<and>
        in_section (max (offsetTop a) (offsetTop b)) b"
      by (auto simp: apart_def in_section_def)
    with r show False by blast
  qed
qed








lemma menu_keydown_handle: "menu_keydown (snd (handle l es)) = menu_keydown (snd es)"
  by (cases l; cases es) simp

lemma menu_keydown_fold_handle:
  "menu_keydown (snd (fold handle ls es)) = menu_keydown (snd es)"
  by (induction ls arbitrary: es) (simp_all add: menu_keydown_handle)

lemma menu_keydown_escape: "menu_keydown (escape_keydown e s) = menu_keydown s"
  by (simp add: escape_keydown_def)

lemma menu_keydown_keydown: "menu_keydown (snd (keydown e s)) = menu_keydown s"
proof (cases "fold handle (menu_keydown s) (e, s)")
  case (Pair e1 s1)
  then have "menu_keydown s1 = menu_keydown s"
    using menu_keydown_fold_handle [of "menu_keydown s" "(e, s)"] by simp
  with Pair show ?thesis
    by (simp add: keydown_def Let_def menu_keydown_escape)
qed

lemma menu_keydown_nav_step: "menu_keydown (nav_step ev s) = menu_keydown s"
  by (cases ev)
     (simp_all add: toggle_click_def link_click_def outside_click_def close_menu_def
        menu_keydown_keydown Let_def)

lemma menu_keydown_run: "menu_keydown (fold nav_step evs s) = menu_keydown s"
  by (induction evs arbitrary: s) (simp_all add: menu_keydown_nav_step)

lemma no_listener_after_load: "menu_keydown (fold nav_step evs (page_load toggle items)) = []"
  by (simp add: menu_keydown_run page_load_def)

lemma Tab_not_Escape: "js ''Tab'' \<noteq> js ''Escape''"
  by (simp add: js_def)

lemma keydown_Tab_no_listener:
  "menu_keydown s = [] \<Longrightarrow> key e = js ''Tab'' \<Longrightarrow> keydown e s = (e, s)"
  by (simp add: keydown_def escape_keydown_def Tab_not_Escape)

lemma tab_never_trapped:
  "key e = js ''Tab'' \<Longrightarrow>
     keydown e (fold nav_step evs (page_load toggle items)) =
       (e, fold nav_step evs (page_load toggle items))"
  by (simp add: keydown_Tab_no_listener no_listener_after_load)

lemma trapFocus_wraps_forward:
  assumes "focusable s = x # xs" and "menu_keydown s = []"
    and "activeElement s = Some (last (x # xs))"
  shows "keydown \<lparr>key = js ''Tab'', shiftKey = False, defaultPrevented = False\<rparr> (trapFocus s) =
     (\<lparr>key = js ''Tab'', shiftKey = False, defaultPrevented = True\<rparr>,
      (trapFocus s)\<lparr>activeElement := Some x\<rparr>)"
  using assms
  by (simp add: keydown_def trapFocus_def Let_def escape_keydown_def Tab_not_Escape)

lemma trapFocus_wraps_backward:
  assumes "focusable s = x # xs" and "menu_keydown s = []"
    and "activeElement s = Some x"
  shows "keydown \<lparr>key = js ''Tab'', shiftKey = True, defaultPrevented = False\<rparr> (trapFocus s) =
     (\<lparr>key = js ''Tab'', shiftKey = True, defaultPrevented = True\<rparr>,
      (trapFocus s)\<lparr>activeElement := Some (last (x # xs))\<rparr>)"
  using assms
  by (simp add: keydown_def trapFocus_def Let_def escape_keydown_def Tab_not_Escape)

section \<open>The claims about validation\<close>

text \<open>
  Claim C3. For every string \<open>x\<close>, \<open>validateEmail(x)\<close> is true exactly when \<open>x\<close> matches
  \<open>^[^\\s@]+@[^\\s@]+\\.[^\\s@]+$\<close>: one or more characters that are neither white space nor
  \<open>@\<close>, then \<open>@\<close>, then one or more such characters, then a dot, then one or more such
  characters. In particular \<open>a@b.co\<close> is accepted, and \<open>a@b\<close> and \<open>a b@c.com\<close> are rejected.
\<close>

theorem C3_validateEmail_pattern:
  "validateEmail x = email_shape x \<and>
   validateEmail (js ''a@b.co'') \<and> \<not> validateEmail (js ''a@b'') \<and>
   \<not> validateEmail (js ''a b@c.com'')"
proof -
  have "validateEmail (js ''a@b.co'')" "\<not> validateEmail (js ''a@b'')"
    "\<not> validateEmail (js ''a b@c.com'')"
    by (simp_all add: validateEmail_def emailRegex_def js_def is_space_def)
  then show ?thesis by (simp add: validateEmail_shape)
qed

text \<open>
  Claim C4. With the three controls on the page, a field is reported valid (it leaves
  validation without the \<open>aria-invalid\<close> mark) exactly when it is not empty after
  trimming and passes its rule. The name is valid exactly when its trimmed value has at
  least 2 characters: an empty one gets the message that the name is required, one of
  length 1 the message that it is too short. The message is valid exactly when its
  trimmed value has at least 10 characters. The boolean that \<open>validateForm\<close> returns is
  the conjunction of the three results.
\<close>

theorem C4_field_rules:
  assumes "nameInput s = Some n" and "emailInput s = Some e" and "messageInput s = Some m"
  shows "\<exists>n' e' m'.
     nameInput (snd (validateForm s)) = Some n' \<and>
     emailInput (snd (validateForm s)) = Some e' \<and>
     messageInput (snd (validateForm s)) = Some m' \<and>
     (aria_invalid n' = None) = name_rule (el_value n) \<and>
     (aria_invalid e' = None) = email_rule (el_value e) \<and>
     (aria_invalid m' = None) = message_rule (el_value m) \<and>
     (name_rule (el_value n) = (2 \<le> length (trim (el_value n)))) \<and>
     (message_rule (el_value m) = (10 \<le> length (trim (el_value m)))) \<and>
     (trim (el_value n) = [] \<longrightarrow> shows_error n' (js ''Please enter your name'')) \<and>
     (length (trim (el_value n)) = 1 \<longrightarrow>
        shows_error n' (js ''Name must be at least 2 characters'')) \<and>
     (2 \<le> length (trim (el_value n)) \<longrightarrow> shows_no_error n') \<and>
     (trim (el_value m) = [] \<longrightarrow> shows_error m' (js ''Please enter a message'')) \<and>
     (trim (el_value m) \<noteq> [] \<and> length (trim (el_value m)) < 10 \<longrightarrow>
        shows_error m' (js ''Message must be at least 10 characters'')) \<and>
     (10 \<le> length (trim (el_value m)) \<longrightarrow> shows_no_error m') \<and>
     fst (validateForm s) =
       (aria_invalid n' = None \<and> aria_invalid e' = None \<and> aria_invalid m' = None)"
proof -
  let ?n = "snd (validate_name n)" and ?e = "snd (validate_email e)"
    and ?m = "snd (validate_message m)"
  have fields: "nameInput (snd (validateForm s)) = Some ?n"
    "emailInput (snd (validateForm s)) = Some ?e"
    "messageInput (snd (validateForm s)) = Some ?m"
    using assms by (simp_all add: validateForm_fields guarded_Some)
  have flag: "fst (validateForm s) =
      (aria_invalid ?n = None \<and> aria_invalid ?e = None \<and> aria_invalid ?m = None)"
    using assms
    by (simp add: fst_validateForm guarded_Some fst_validate_name fst_validate_email
        fst_validate_message aria_validate_name aria_validate_email aria_validate_message)
  have rules: "name_rule (el_value n) = (2 \<le> length (trim (el_value n)))"
    "message_rule (el_value m) = (10 \<le> length (trim (el_value m)))"
    by (auto simp: name_rule_def message_rule_def)
  have nm: "trim (el_value n) = [] \<longrightarrow> shows_error ?n (js ''Please enter your name'')"
    "length (trim (el_value n)) = 1 \<longrightarrow>
       shows_error ?n (js ''Name must be at least 2 characters'')"
    "2 \<le> length (trim (el_value n)) \<longrightarrow> shows_no_error ?n"
    by (auto simp: validate_name_cases shows_error_showError shows_no_error_clearError)
  have msg: "trim (el_value m) = [] \<longrightarrow> shows_error ?m (js ''Please enter a message'')"
    "trim (el_value m) \<noteq> [] \<and> length (trim (el_value m)) < 10 \<longrightarrow>
       shows_error ?m (js ''Message must be at least 10 characters'')"
    "10 \<le> length (trim (el_value m)) \<longrightarrow> shows_no_error ?m"
    by (auto simp: validate_message_cases shows_error_showError shows_no_error_clearError)
  note ar = aria_validate_name [of n] aria_validate_email [of e] aria_validate_message [of m]
  show ?thesis
    by (intro exI conjI) (rule fields flag rules nm msg ar)+
qed

theorem C4_field_rules_witness:
  "\<exists>n' e' m'.
     nameInput (snd (validateForm (sample_page (js ''a'') (js ''a@b.co'') (js ''123456789'') (js ''Send'')))) = Some n' \<and>
     emailInput (snd (validateForm (sample_page (js ''a'') (js ''a@b.co'') (js ''123456789'') (js ''Send'')))) = Some e' \<and>
     messageInput (snd (validateForm (sample_page (js ''a'') (js ''a@b.co'') (js ''123456789'') (js ''Send'')))) = Some m' \<and>
     shows_error n' (js ''Name must be at least 2 characters'') \<and>
     aria_invalid e' = None \<and>
     shows_error m' (js ''Message must be at least 10 characters'') \<and>
     \<not> fst (validateForm (sample_page (js ''a'') (js ''a@b.co'') (js ''123456789'') (js ''Send'')))"
proof -
  let ?s = "sample_page (js ''a'') (js ''a@b.co'') (js ''123456789'') (js ''Send'')"
  have e: "email_rule (js ''a@b.co'')"
    using email_samples(1) by (simp add: email_rule_def trim_samples js_Nil validateEmail_shape)
  have h: "nameInput ?s = Some (text_input (js ''a''))"
    "emailInput ?s = Some (text_input (js ''a@b.co''))"
    "messageInput ?s = Some (text_input (js ''123456789''))"
    by (simp_all add: sample_page_fields)
  from C4_field_rules [OF h]
  obtain n' e' m' where
    f: "nameInput (snd (validateForm ?s)) = Some n'"
       "emailInput (snd (validateForm ?s)) = Some e'"
       "messageInput (snd (validateForm ?s)) = Some m'"
    and r: "(aria_invalid n' = None) = name_rule (el_value (text_input (js ''a'')))"
       "(aria_invalid e' = None) = email_rule (el_value (text_input (js ''a@b.co'')))"
       "length (trim (el_value (text_input (js ''a'')))) = 1 \<longrightarrow>
          shows_error n' (js ''Name must be at least 2 characters'')"
       "trim (el_value (text_input (js ''123456789''))) \<noteq> [] \<and>
        length (trim (el_value (text_input (js ''123456789'')))) < 10 \<longrightarrow>
          shows_error m' (js ''Message must be at least 10 characters'')"
       "fst (validateForm ?s) =
          (aria_invalid n' = None \<and> aria_invalid e' = None \<and> aria_invalid m' = None)"
    by (elim exE conjE) (rule that; assumption)
  from r e have "shows_error n' (js ''Name must be at least 2 characters'')"
    "aria_invalid e' = None"
    "shows_error m' (js ''Message must be at least 10 characters'')"
    "\<not> fst (validateForm ?s)"
    by (simp_all add: text_input_fields trim_samples length_js js_Nil name_rule_def)
  with f show ?thesis by blast
qed

text \<open>
  Claim C1. When at least one of the name, e-mail and message fields fails validation,
  the submit handler returns before the network call: no request is issued, and the page
  is left as the validator left it, each failing field marked invalid with its message.
\<close>

theorem C1_invalid_form_no_post:
  assumes "(\<exists>n. nameInput s = Some n \<and> \<not> name_rule (el_value n)) \<or>
           (\<exists>e. emailInput s = Some e \<and> \<not> email_rule (el_value e)) \<or>
           (\<exists>m. messageInput s = Some m \<and> \<not> message_rule (el_value m))"
  shows "submit_begin s = Aborted (snd (validateForm (clear_status s))) \<and>
         submit s outcome = snd (validateForm (clear_status s)) \<and>
         requests (submit s outcome) = requests s \<and>
         (\<forall>n. nameInput s = Some n \<and> \<not> name_rule (el_value n) \<longrightarrow>
            marked_invalid (nameInput (submit s outcome))) \<and>
         (\<forall>e. emailInput s = Some e \<and> \<not> email_rule (el_value e) \<longrightarrow>
            marked_invalid (emailInput (submit s outcome))) \<and>
         (\<forall>m. messageInput s = Some m \<and> \<not> message_rule (el_value m) \<longrightarrow>
            marked_invalid (messageInput (submit s outcome)))"
proof -
  let ?c = "clear_status s"
  have "\<not> fst (validateForm ?c)"
    using assms
    by (auto simp: fst_validateForm clear_status_fields guarded_Some fst_validate_name
        fst_validate_email fst_validate_message)
  then have start: "submit_begin s = Aborted (snd (validateForm ?c))"
    and run: "submit s outcome = snd (validateForm ?c)"
    by (simp_all add: submit_begin_invalid submit_invalid)
  have req: "requests (submit s outcome) = requests s"
    by (simp add: run validateForm_frame clear_status_fields)
  have n: "marked_invalid (nameInput (submit s outcome))"
    if "nameInput s = Some n" "\<not> name_rule (el_value n)" for n
    using that
    by (simp add: run validateForm_fields clear_status_fields guarded_marked marked_validate_name)
  have e: "marked_invalid (emailInput (submit s outcome))"
    if "emailInput s = Some e" "\<not> email_rule (el_value e)" for e
    using that
    by (simp add: run validateForm_fields clear_status_fields guarded_marked marked_validate_email)
  have m: "marked_invalid (messageInput (submit s outcome))"
    if "messageInput s = Some m" "\<not> message_rule (el_value m)" for m
    using that
    by (simp add: run validateForm_fields clear_status_fields guarded_marked
        marked_validate_message)
  from start run req n e m show ?thesis by blast
qed

theorem C1_invalid_form_no_post_witness:
  "requests (submit (sample_page (js ''a'') (js ''a@b.co'') (js ''1234567890'') (js ''Send''))
      (JsonResolved (JObj [(js ''success'', JBool True)]))) = [] \<and>
   marked_invalid (nameInput
     (submit (sample_page (js ''a'') (js ''a@b.co'') (js ''1234567890'') (js ''Send''))
        (JsonResolved (JObj [(js ''success'', JBool True)]))))"
proof -
  let ?s = "sample_page (js ''a'') (js ''a@b.co'') (js ''1234567890'') (js ''Send'')"
  have bad: "\<not> name_rule (el_value (text_input (js ''a'')))"
    by (simp add: name_rule_def text_input_fields trim_samples length_js)
  then have "(\<exists>n. nameInput ?s = Some n \<and> \<not> name_rule (el_value n)) \<or>
           (\<exists>e. emailInput ?s = Some e \<and> \<not> email_rule (el_value e)) \<or>
           (\<exists>m. messageInput ?s = Some m \<and> \<not> message_rule (el_value m))"
    by (simp add: sample_page_fields)
  note w = C1_invalid_form_no_post
      [OF this, where outcome = "JsonResolved (JObj [(js ''success'', JBool True)])"]
  from w have "requests (submit ?s (JsonResolved (JObj [(js ''success'', JBool True)]))) =
      requests ?s"
    by (elim conjE)
  moreover from w bad
  have "marked_invalid (nameInput (submit ?s (JsonResolved (JObj [(js ''success'', JBool True)]))))"
    using sample_page_fields(1) [of "js ''a''" "js ''a@b.co''" "js ''1234567890''" "js ''Send''"]
    by blast
  ultimately show ?thesis
    by (simp add: sample_page_fields)
qed

section \<open>The claims about submission\<close>





text \<open>
  Claim C6. When the response JSON reports success, the form is reset (every field takes
  the value of its markup again, the empty string for a control without a preset value),
  the status line is not empty right after, and it is empty once 5000 ms have passed;
  clearing it a second time leaves it empty. With no older timer pending, the success
  text stays for the whole 5000 ms.
\<close>

theorem C6_success_resets_form:
  assumes "nameInput s = Some n" and "emailInput s = Some e" and "messageInput s = Some m"
    and "name_rule (el_value n)" and "email_rule (el_value e)" and "message_rule (el_value m)"
    and "formStatus s = Some f"
    and "truthy_opt (get_prop result (js ''success''))"
  shows "formData_get (nameInput (submit s (JsonResolved result))) = Some (defaultValue n) \<and>
         formData_get (emailInput (submit s (JsonResolved result))) = Some (defaultValue e) \<and>
         formData_get (messageInput (submit s (JsonResolved result))) = Some (defaultValue m) \<and>
         (defaultValue n = [] \<and> defaultValue e = [] \<and> defaultValue m = [] \<longrightarrow>
            formData_get (nameInput (submit s (JsonResolved result))) = Some [] \<and>
            formData_get (emailInput (submit s (JsonResolved result))) = Some [] \<and>
            formData_get (messageInput (submit s (JsonResolved result))) = Some []) \<and>
         status_text (submit s (JsonResolved result)) = Some success_message \<and>
         success_message \<noteq> [] \<and>
         status_text (advance 5000 (submit s (JsonResolved result))) = Some [] \<and>
         status_text (run_cb ClearStatus (advance 5000 (submit s (JsonResolved result)))) = Some [] \<and>
         (\<forall>t. run_cb ClearStatus (run_cb ClearStatus t) = run_cb ClearStatus t) \<and>
         (timers s = [] \<longrightarrow>
            (\<forall>d<5000. status_text (advance d (submit s (JsonResolved result))) =
               Some success_message))"
proof -
  let ?r = "submit s (JsonResolved result)"
  have ok: "fst (validateForm (clear_status s))"
    using assms(1-6) by (rule valid_form)
  note run = submit_success [OF ok assms(8)]
  have fields: "formData_get (nameInput ?r) = Some (defaultValue n)"
    "formData_get (emailInput ?r) = Some (defaultValue e)"
    "formData_get (messageInput ?r) = Some (defaultValue m)"
    using assms(1-3)
    by (simp_all add: run finally_block_frame on_success_frame sending_frame validateForm_fields
        clear_status_fields guarded_Some formData_get_def default_validate)
  have st: "formStatus ?r = Some (f\<lparr>textContent := success_message, className := js ''form-status'',
      color := js ''var(--accent-cyan)''\<rparr>)"
    using assms(7)
    by (simp add: run finally_block_frame on_success_frame sending_frame validateForm_frame
        clear_status_def)
  then have shown: "status_text ?r = Some success_message"
    by (simp add: status_text_def)
  have tm: "timers ?r = timers s @ [(now s + 5000, ClearStatus)]" and nw: "now ?r = now s"
    by (simp_all add: run finally_block_frame on_success_frame sending_frame validateForm_frame
        clear_status_fields)
  have later: "status_text (advance 5000 ?r) = Some []"
    by (simp add: status_text_advance tm nw st)
  have later2: "status_text (run_cb ClearStatus (advance 5000 ?r)) = Some []"
    using later by (auto simp: status_text_def)
  have before: "status_text (advance d ?r) = Some success_message"
    if "timers s = []" "d < 5000" for d
    using that by (simp add: status_text_advance tm nw shown)
  have cleared: "defaultValue n = [] \<and> defaultValue e = [] \<and> defaultValue m = [] \<longrightarrow>
      formData_get (nameInput ?r) = Some [] \<and> formData_get (emailInput ?r) = Some [] \<and>
      formData_get (messageInput ?r) = Some []"
    using fields by simp
  from fields cleared shown success_message_nonempty later later2 run_cb_idem before
  show ?thesis by blast
qed

theorem C6_success_resets_form_witness:
  "formData_get (nameInput (submit (sample_page (js ''Al'') (js ''a@b.co'') (js ''1234567890'') (js ''Send''))
      (JsonResolved (JObj [(js ''success'', JBool True)])))) = Some [] \<and>
   status_text (submit (sample_page (js ''Al'') (js ''a@b.co'') (js ''1234567890'') (js ''Send''))
      (JsonResolved (JObj [(js ''success'', JBool True)]))) = Some success_message \<and>
   status_text (advance 4999 (submit (sample_page (js ''Al'') (js ''a@b.co'') (js ''1234567890'') (js ''Send''))
      (JsonResolved (JObj [(js ''success'', JBool True)])))) = Some success_message \<and>
   status_text (advance 5000 (submit (sample_page (js ''Al'') (js ''a@b.co'') (js ''1234567890'') (js ''Send''))
      (JsonResolved (JObj [(js ''success'', JBool True)])))) = Some []"
proof -
  let ?s = "sample_page (js ''Al'') (js ''a@b.co'') (js ''1234567890'') (js ''Send'')"
  let ?r = "submit ?s (JsonResolved (JObj [(js ''success'', JBool True)]))"
  have h: "nameInput ?s = Some (text_input (js ''Al''))"
    "emailInput ?s = Some (text_input (js ''a@b.co''))"
    "messageInput ?s = Some (text_input (js ''1234567890''))"
    "name_rule (el_value (text_input (js ''Al'')))"
    "email_rule (el_value (text_input (js ''a@b.co'')))"
    "message_rule (el_value (text_input (js ''1234567890'')))"
    "formStatus ?s = Some \<lparr>textContent = [], className = js ''form-status'', color = []\<rparr>"
    by (simp_all add: sample_page_fields text_input_fields rules_samples)
  note w = C6_success_resets_form [OF h success_true]
  from w have 1: "formData_get (nameInput ?r) = Some (defaultValue (text_input (js ''Al'')))"
    and 2: "status_text ?r = Some success_message"
    and 3: "status_text (advance 5000 ?r) = Some []"
    and 4: "timers ?s = [] \<longrightarrow> (\<forall>d<5000. status_text (advance d ?r) = Some success_message)"
    by blast+
  from 4 have "status_text (advance 4999 ?r) = Some success_message"
    by (simp add: sample_page_fields)
  with 1 2 3 show ?thesis
    by (simp add: text_input_fields)
qed

text \<open>
  Claim C7. When a submission fails (the response JSON does not report success, the
  transport fails, or the body is not JSON), the form fields keep their values, the
  status line shows the generic failure text, the same for every failure and so
  independent of the error, and the error itself is logged.
\<close>

theorem C7_failure_keeps_form:
  assumes "nameInput s = Some n" and "emailInput s = Some e" and "messageInput s = Some m"
    and "name_rule (el_value n)" and "email_rule (el_value e)" and "message_rule (el_value m)"
    and "formStatus s = Some f"
    and "is_failure outcome"
  shows "formData_get (nameInput (submit s outcome)) = Some (el_value n) \<and>
         formData_get (emailInput (submit s outcome)) = Some (el_value e) \<and>
         formData_get (messageInput (submit s outcome)) = Some (el_value m) \<and>
         status_text (submit s outcome) = Some failure_message \<and>
         console (submit s outcome) =
           console s @ [(js ''Form submission error:'', underlying_error outcome)] \<and>
         (\<forall>other. is_failure other \<longrightarrow>
            formStatus (submit s other) = formStatus (submit s outcome))"
proof -
  have ok: "fst (validateForm (clear_status s))"
    using assms(1-6) by (rule valid_form)
  have fields: "formData_get (nameInput (submit s outcome)) = Some (el_value n)"
    "formData_get (emailInput (submit s outcome)) = Some (el_value e)"
    "formData_get (messageInput (submit s outcome)) = Some (el_value m)"
    using assms(1-3)
    by (simp_all add: submit_failure [OF ok assms(8)] finally_block_frame catch_block_frame
        sending_frame validateForm_fields clear_status_fields guarded_Some formData_get_def
        value_validate)
  have st: "formStatus (submit s other) =
      Some (f\<lparr>textContent := failure_message, className := js ''form-status'',
               color := js ''#ff6b6b''\<rparr>)"
    if "is_failure other" for other
    using assms(7)
    by (simp add: submit_failure [OF ok that] finally_block_frame catch_block_frame
        sending_frame validateForm_frame clear_status_def)
  have shown: "status_text (submit s outcome) = Some failure_message"
    by (simp add: status_text_def st [OF assms(8)])
  have logged: "console (submit s outcome) =
      console s @ [(js ''Form submission error:'', underlying_error outcome)]"
    by (simp add: submit_failure [OF ok assms(8)] finally_block_frame catch_block_frame
        sending_frame validateForm_frame clear_status_fields)
  have same: "formStatus (submit s other) = formStatus (submit s outcome)"
    if "is_failure other" for other
    by (simp add: st [OF that] st [OF assms(8)])
  from fields shown logged same show ?thesis by blast
qed

theorem C7_failure_keeps_form_witness:
  "formData_get (messageInput
     (submit (sample_page (js ''Al'') (js ''a@b.co'') (js ''1234567890'') (js ''Send''))
        (JsonResolved (JObj [(js ''success'', JBool False), (js ''message'', JStr (js ''quota''))]))))
     = Some (js ''1234567890'') \<and>
   status_text
     (submit (sample_page (js ''Al'') (js ''a@b.co'') (js ''1234567890'') (js ''Send''))
        (JsonResolved (JObj [(js ''success'', JBool False), (js ''message'', JStr (js ''quota''))])))
     = Some failure_message \<and>
   console
     (submit (sample_page (js ''Al'') (js ''a@b.co'') (js ''1234567890'') (js ''Send''))
        (JsonResolved (JObj [(js ''success'', JBool False), (js ''message'', JStr (js ''quota''))])))
     = [(js ''Form submission error:'', Error (JStr (js ''quota'')))]"
proof -
  let ?s = "sample_page (js ''Al'') (js ''a@b.co'') (js ''1234567890'') (js ''Send'')"
  let ?o = "JsonResolved (JObj [(js ''success'', JBool False), (js ''message'', JStr (js ''quota''))])"
  have h: "nameInput ?s = Some (text_input (js ''Al''))"
    "emailInput ?s = Some (text_input (js ''a@b.co''))"
    "messageInput ?s = Some (text_input (js ''1234567890''))"
    "name_rule (el_value (text_input (js ''Al'')))"
    "email_rule (el_value (text_input (js ''a@b.co'')))"
    "message_rule (el_value (text_input (js ''1234567890'')))"
    "formStatus ?s = Some \<lparr>textContent = [], className = js ''form-status'', color = []\<rparr>"
    by (simp_all add: sample_page_fields text_input_fields rules_samples)
  note w = C7_failure_keeps_form [OF h failure_false]
  from w have 1: "formData_get (messageInput (submit ?s ?o)) =
      Some (el_value (text_input (js ''1234567890'')))"
    and 2: "status_text (submit ?s ?o) = Some failure_message"
    and 3: "console (submit ?s ?o) =
      console ?s @ [(js ''Form submission error:'', underlying_error ?o)]"
    by blast+
  from 1 2 3 show ?thesis
    by (simp add: text_input_fields sample_page_fields underlying_false)
qed

text \<open>
  Claim C2. After a submission that reached the network call, the submit button is
  enabled again and carries the label it had before. The \<open>finally\<close> block tests the saved
  label for truthiness, so this fails for a button whose label is the empty string: on a
  valid form with such a button the button stays disabled with the loading label. (For a
  label that is not empty, \<open>submit_button\<close> shows that it is restored.)
\<close>

theorem C2_empty_label_stays_disabled:
  "submitButton
     (submit (sample_page (js ''Al'') (js ''a@b.co'') (js ''1234567890'') [])
        (JsonResolved (JObj [(js ''success'', JBool True)]))) =
   Some \<lparr>disabled = True, innerHTML = js ''<span>Sending...</span>''\<rparr>"
proof -
  let ?s = "sample_page (js ''Al'') (js ''a@b.co'') (js ''1234567890'') []"
  have "fst (validateForm (clear_status ?s))"
    by (rule valid_form [of _ "text_input (js ''Al'')" "text_input (js ''a@b.co'')"
          "text_input (js ''1234567890'')"])
       (simp_all add: sample_page_fields text_input_fields rules_samples)
  from submit_button [OF this sample_page_fields(5)] show ?thesis
    by simp
qed

section \<open>The claims about navigation\<close>



text \<open>
  Claim C9. While the mobile menu is open, Tab is trapped in the menu: from the last
  focusable element it moves the focus to the first, and Shift+Tab from the first to the
  last. The function \<open>trapFocus\<close> would do this (\<open>trapFocus_wraps_forward\<close>,
  \<open>trapFocus_wraps_backward\<close>), but nothing calls it, so the menu never has the listener:
  with the menu open and the focus on its last element 3, the script neither prevents
  the default action of Tab nor moves the focus to the first element 1.
\<close>

theorem C9_tab_leaves_open_menu:
  "menu_open (fold nav_step [ToggleClick, Focus 3] (page_load 0 [1, 2, 3])) \<and>
   activeElement (fold nav_step [ToggleClick, Focus 3] (page_load 0 [1, 2, 3])) = Some 3 \<and>
   keydown \<lparr>key = js ''Tab'', shiftKey = False, defaultPrevented = False\<rparr>
     (fold nav_step [ToggleClick, Focus 3] (page_load 0 [1, 2, 3])) =
     (\<lparr>key = js ''Tab'', shiftKey = False, defaultPrevented = False\<rparr>,
      fold nav_step [ToggleClick, Focus 3] (page_load 0 [1, 2, 3]))"
proof -
  have "menu_open (fold nav_step [ToggleClick, Focus 3] (page_load 0 [1, 2, 3]))"
    "activeElement (fold nav_step [ToggleClick, Focus 3] (page_load 0 [1, 2, 3])) = Some 3"
    by (simp_all add: page_load_def toggle_click_def Let_def)
  moreover have "keydown \<lparr>key = js ''Tab'', shiftKey = False, defaultPrevented = False\<rparr>
     (fold nav_step [ToggleClick, Focus 3] (page_load 0 [1, 2, 3])) =
     (\<lparr>key = js ''Tab'', shiftKey = False, defaultPrevented = False\<rparr>,
      fold nav_step [ToggleClick, Focus 3] (page_load 0 [1, 2, 3]))"
    by (rule tab_never_trapped) simp
  ultimately show ?thesis
    by (intro conjI)
qed

end
